theory Spec2Isabelle
  imports Complex_Main "HOL-Library.Char_ord" "HOL-Library.List_Lexorder"
    "HOL-Library.Multiset"
begin

section \<open>EduMap: the data pipeline of dashboard.py\<close>

text \<open>
  The script loads one table of primary schools, derives the staffing columns, filters
  by province and district, and builds three KPI totals, two per-district tables and two
  map point sets. A pandas column is modelled row by row: a cell of a nullable column is
  an \<open>option\<close> (\<open>None\<close> is NaN/null), arithmetic on cells propagates \<open>None\<close> as pandas
  propagates NaN, and reductions skip \<open>None\<close> as pandas does by default.

  Counts (enrolment, teachers, classrooms, toilets) are whole numbers, and the model
  computes with them as mathematical integers and rationals. pandas holds a count
  column as int64, or as float64 once it has a null, and line 18 divides in float64.
  The two agree with the model as long as every count fits a signed 32-bit integer and
  the table has at most \<open>2 ^ 16\<close> rows: then every sum and difference stays far below
  \<open>2 ^ 53\<close>, where int64 and float64 are both exact, and the float64 quotient of an
  enrolment by 40 lies on the same side of every half-integer as the exact quotient.
  Beyond that size int64 wraps and float64 rounds, and the model does neither: every
  property below whose truth depends on the size of the counts has the bound
  (\<open>int32_counts\<close>, \<open>modest\<close>) as a hypothesis. The pupil-teacher ratio and the
  coordinates are rationals; no property depends on their arithmetic.
\<close>

subsection \<open>Cells and columns\<close>

datatype error = IntCastingNaNError | TypeError

text \<open>\<open>Series.fillna(v)\<close> on one cell.\<close>

definition fillna :: "'a \<Rightarrow> 'a option \<Rightarrow> 'a option" where
  "fillna v c = (case c of None \<Rightarrow> Some v | Some x \<Rightarrow> Some x)"

text \<open>\<open>a + b\<close> and \<open>a - b\<close> on two cells: NaN if either is.\<close>

definition padd :: "int option \<Rightarrow> int option \<Rightarrow> int option" where
  "padd a b = (case a of None \<Rightarrow> None
                | Some x \<Rightarrow> (case b of None \<Rightarrow> None | Some y \<Rightarrow> Some (x + y)))"

definition psub :: "int option \<Rightarrow> int option \<Rightarrow> int option" where
  "psub a b = (case a of None \<Rightarrow> None
                | Some x \<Rightarrow> (case b of None \<Rightarrow> None | Some y \<Rightarrow> Some (x - y)))"

text \<open>\<open>col / 40\<close>: true division of a cell by a constant.\<close>

definition pdiv :: "int option \<Rightarrow> int \<Rightarrow> rat option" where
  "pdiv a k = (case a of None \<Rightarrow> None | Some x \<Rightarrow> Some (of_int x / of_int k))"

text \<open>
  \<open>Series.round()\<close> with no decimals is numpy's rounding to the nearest integer, a tie
  going to the even neighbour; the result is still a float cell.
\<close>

definition np_round :: "rat \<Rightarrow> rat" where
  "np_round x =
     (let f = \<lfloor>x\<rfloor>; d = x - of_int f
      in of_int (if d < 1 / 2 then f
                 else if 1 / 2 < d then f + 1
                 else if even f then f else f + 1))"

definition pround :: "rat option \<Rightarrow> rat option" where
  "pround c = (case c of None \<Rightarrow> None | Some x \<Rightarrow> Some (np_round x))"

text \<open>
  \<open>Series.astype(int)\<close> on one cell: a NaN raises, a float is truncated towards zero.
\<close>

definition astype_int :: "rat option \<Rightarrow> error + int" where
  "astype_int c = (case c of None \<Rightarrow> Inl IntCastingNaNError
                    | Some x \<Rightarrow> Inr (if 0 \<le> x then \<lfloor>x\<rfloor> else \<lceil>x\<rceil>))"

text \<open>\<open>Series.clip(lower=l)\<close> on one cell.\<close>

definition clip_lower :: "int \<Rightarrow> int option \<Rightarrow> int option" where
  "clip_lower l c = (case c of None \<Rightarrow> None | Some x \<Rightarrow> Some (max l x))"

text \<open>\<open>Series.sum()\<close>: nulls are skipped, the empty sum is 0.\<close>

fun psum :: "int option list \<Rightarrow> int" where
  "psum [] = 0"
| "psum (None # cs) = psum cs"
| "psum (Some x # cs) = x + psum cs"

text \<open>\<open>Series.mean()\<close>: nulls are skipped, the mean of no value is NaN.\<close>

fun notna_values :: "'a option list \<Rightarrow> 'a list" where
  "notna_values [] = []"
| "notna_values (None # cs) = notna_values cs"
| "notna_values (Some x # cs) = x # notna_values cs"

definition pmean :: "rat option list \<Rightarrow> rat option" where
  "pmean cs = (let vs = notna_values cs
               in if vs = [] then None else Some (sum_list vs / of_nat (length vs)))"

subsection \<open>Rows of the table\<close>

text \<open>The columns of the CSV file that the script reads.\<close>

record raw_row =
  Name_of_Sc :: "string option"
  Province :: "string option"
  District :: "string option"
  Latitude :: "rat option"
  Longitude :: "rat option"
  TotalEnrol :: "int option"
  TotalGirls :: "int option"
  TotalBoys :: "int option"
  GO_KTSC_M :: "int option"
  authorityM :: "int option"
  PTA_BOG_M :: "int option"
  OthersM :: "int option"
  GOK_TSC_F :: "int option"
  authorityF :: "int option"
  PTA_BOG_F :: "int option"
  OthersF :: "int option"
  PupilTeach :: "rat option"
  No_Classrm :: "int option"
  TotalToile :: "int option"

text \<open>The same row with the columns that preprocessing adds.\<close>

record school_record = raw_row +
  Male_Teachers :: "int option"
  Female_Teachers :: "int option"
  Total_Teachers_Recalc :: "int option"
  Teachers_Required :: int
  Teacher_Shortage :: "int option"
  Gender_Enrol_Gap :: "int option"
  No_Classrooms :: int
  Toilet_Deficit :: int

subsection \<open>Preprocessing (lines 9 to 22)\<close>

text \<open>Line 9: \<open>df["TotalEnrol"].notna() & (df["TotalEnrol"] > 0)\<close>.\<close>

definition valid_enrol :: "'a raw_row_scheme \<Rightarrow> bool" where
  "valid_enrol r = (case TotalEnrol r of None \<Rightarrow> False | Some e \<Rightarrow> 0 < e)"

definition validity_stage :: "'a raw_row_scheme list \<Rightarrow> 'a raw_row_scheme list" where
  "validity_stage rows = filter valid_enrol rows"

text \<open>
  The size of table on which the machine arithmetic of pandas is the arithmetic of the
  model: the enrolment and the eight teacher counts of every row fit a signed 32-bit
  integer, and there are at most \<open>2 ^ 16\<close> rows.
\<close>

definition int32_count :: "int option \<Rightarrow> bool" where
  "int32_count c = (case c of None \<Rightarrow> True | Some x \<Rightarrow> - (2 ^ 31) \<le> x \<and> x < 2 ^ 31)"

definition int32_counts :: "'a raw_row_scheme \<Rightarrow> bool" where
  "int32_counts r =
     list_all int32_count
       [TotalEnrol r, GO_KTSC_M r, authorityM r, PTA_BOG_M r, OthersM r,
        GOK_TSC_F r, authorityF r, PTA_BOG_F r, OthersF r]"

definition modest :: "'a raw_row_scheme list \<Rightarrow> bool" where
  "modest rows \<longleftrightarrow> length rows \<le> 2 ^ 16 \<and> list_all int32_counts rows"

text \<open>Line 14: \<open>df[teacher_columns] = df[teacher_columns].fillna(0)\<close>.\<close>

definition fill_teacher_columns :: "raw_row \<Rightarrow> raw_row" where
  "fill_teacher_columns r =
     r\<lparr>GO_KTSC_M := fillna 0 (GO_KTSC_M r), authorityM := fillna 0 (authorityM r),
       PTA_BOG_M := fillna 0 (PTA_BOG_M r), OthersM := fillna 0 (OthersM r),
       GOK_TSC_F := fillna 0 (GOK_TSC_F r), authorityF := fillna 0 (authorityF r),
       PTA_BOG_F := fillna 0 (PTA_BOG_F r), OthersF := fillna 0 (OthersF r)\<rparr>"

text \<open>Line 22: \<open>1 if pd.isna(x) or x <= 0 else 0\<close>.\<close>

definition toilet_deficit :: "int option \<Rightarrow> int" where
  "toilet_deficit c = (case c of None \<Rightarrow> 1 | Some x \<Rightarrow> if x \<le> 0 then 1 else 0)"

text \<open>Line 21: \<open>fillna(0).astype(int)\<close> on a column of counts.\<close>

definition classrooms :: "int option \<Rightarrow> int" where
  "classrooms c = (case fillna 0 c of None \<Rightarrow> 0 | Some x \<Rightarrow> x)"

text \<open>
  Lines 14 to 22 on one row. The only step that can raise is \<open>astype(int)\<close> of line 18,
  on a row whose enrolment is null.
\<close>

definition derive :: "raw_row \<Rightarrow> error + school_record" where
  "derive r0 =
     (let r = fill_teacher_columns r0;
          male = padd (padd (padd (GO_KTSC_M r) (authorityM r)) (PTA_BOG_M r)) (OthersM r);
          female = padd (padd (padd (GOK_TSC_F r) (authorityF r)) (PTA_BOG_F r)) (OthersF r);
          total = padd male female
      in case astype_int (pround (pdiv (TotalEnrol r) 40)) of
           Inl e \<Rightarrow> Inl e
         | Inr required \<Rightarrow>
             Inr (raw_row.extend r
               \<lparr>Male_Teachers = male, Female_Teachers = female,
                Total_Teachers_Recalc = total,
                Teachers_Required = required,
                Teacher_Shortage = clip_lower 0 (psub (Some required) total),
                Gender_Enrol_Gap = psub (TotalGirls r) (TotalBoys r),
                No_Classrooms = classrooms (No_Classrm r),
                Toilet_Deficit = toilet_deficit (TotalToile r)\<rparr>))"

text \<open>A column operation raises as soon as one row does.\<close>

fun derive_all :: "raw_row list \<Rightarrow> error + school_record list" where
  "derive_all [] = Inr []"
| "derive_all (r # rs) =
     (case derive r of
        Inl e \<Rightarrow> Inl e
      | Inr d \<Rightarrow> (case derive_all rs of Inl e \<Rightarrow> Inl e | Inr ds \<Rightarrow> Inr (d # ds)))"

definition preprocess :: "raw_row list \<Rightarrow> error + school_record list" where
  "preprocess raw = derive_all (validity_stage raw)"

subsection \<open>Sidebar options (lines 30 to 37)\<close>

text \<open>\<open>Series.unique()\<close>: the distinct cells in the order of their first appearance.\<close>

definition unique :: "'a list \<Rightarrow> 'a list" where
  "unique xs = rev (remdups (rev xs))"

text \<open>
  \<open>sorted(...)\<close> on the distinct cells of a text column. A null cell is the float NaN,
  and Python cannot compare a float with a string: the call raises \<open>TypeError\<close> when
  the list has a null and a string. A list of nulls only comes back as it is.
\<close>

definition py_sorted :: "string option list \<Rightarrow> error + string option list" where
  "py_sorted xs =
     (if list_ex (\<lambda>c. c = None) xs
      then (if list_ex (\<lambda>c. c \<noteq> None) xs then Inl TypeError else Inr xs)
      else Inr (map Some (sort (notna_values xs))))"

record sidebar =
  province_options :: "string option list"
  district_options :: "string option list"

text \<open>
  Lines 30 to 37. The province is the string the first select box returned; the district
  options are those of the rows of that province, or of all rows for \<open>''All''\<close>.
\<close>

definition sidebar_options :: "school_record list \<Rightarrow> string \<Rightarrow> error + sidebar" where
  "sidebar_options df province =
     (case py_sorted (unique (map Province df)) of
        Inl e \<Rightarrow> Inl e
      | Inr provinces \<Rightarrow>
          (case py_sorted (unique (map District
                  (if province \<noteq> ''All''
                   then filter (\<lambda>r. Province r = Some province) df else df))) of
             Inl e \<Rightarrow> Inl e
           | Inr districts \<Rightarrow>
               Inr \<lparr>province_options = Some ''All'' # provinces,
                    district_options = Some ''All'' # districts\<rparr>))"

subsection \<open>Region filter (lines 55 to 59)\<close>

text \<open>
  The two selectors are the strings the select boxes return; \<open>''All''\<close> switches a stage
  off. A null province or district equals no selector value.
\<close>

definition filtered_df ::
  "'a raw_row_scheme list \<Rightarrow> string \<Rightarrow> string \<Rightarrow> 'a raw_row_scheme list" where
  "filtered_df df province district =
     (let by_province = (if province \<noteq> ''All''
                         then filter (\<lambda>r. Province r = Some province) df else df)
      in if district \<noteq> ''All''
         then filter (\<lambda>r. District r = Some district) by_province else by_province)"

text \<open>The whole Record Filter: line 9 followed by lines 55 to 59.\<close>

definition record_filter ::
  "'a raw_row_scheme list \<Rightarrow> string \<Rightarrow> string \<Rightarrow> 'a raw_row_scheme list" where
  "record_filter rows province district = filtered_df (validity_stage rows) province district"

subsection \<open>Per-district tables (lines 70 to 77)\<close>

text \<open>
  \<open>groupby("District")\<close> makes one group per distinct non-null key, the keys in ascending
  order.
\<close>

definition group_keys :: "school_record list \<Rightarrow> string list" where
  "group_keys rows = sort (remdups (notna_values (map District rows)))"

definition groupby_District :: "school_record list \<Rightarrow> (string \<times> school_record list) list" where
  "groupby_District rows =
     map (\<lambda>k. (k, filter (\<lambda>r. District r = Some k) rows)) (group_keys rows)"

definition ratio_by_district :: "school_record list \<Rightarrow> (string \<times> rat option) list" where
  "ratio_by_district rows =
     map (\<lambda>(k, g). (k, pmean (map PupilTeach g))) (groupby_District rows)"

definition shortage_by_district :: "school_record list \<Rightarrow> (string \<times> int) list" where
  "shortage_by_district rows =
     map (\<lambda>(k, g). (k, psum (map Teacher_Shortage g))) (groupby_District rows)"

text \<open>
  Line 76: \<open>sort_values("Teacher_Shortage", ascending=False).head(10)\<close>. pandas sorts
  with an unstable quicksort, so the order of districts of equal shortage, and which of
  them stay among the first ten, is not fixed by the table: the bars shown are the first
  ten rows of some rearrangement of the table in descending order of shortage.
\<close>

inductive top10 :: "(string \<times> int) list \<Rightarrow> (string \<times> int) list \<Rightarrow> bool" where
  "mset ys = mset tbl \<Longrightarrow> sorted_wrt (\<lambda>a b. snd b \<le> snd a) ys \<Longrightarrow> top10 tbl (take 10 ys)"

code_pred top10 .

subsection \<open>Map points (lines 83 to 130)\<close>

text \<open>
  Line 83 selects seven columns and drops every row with a null in one of them. The
  classroom column is an integer column and has no null. A row of the result keeps its
  index label, so it is identified with the row of the filtered table it comes from.
\<close>

definition map_row_notna :: "school_record \<Rightarrow> bool" where
  "map_row_notna r \<longleftrightarrow>
     Latitude r \<noteq> None \<and> Longitude r \<noteq> None \<and> Name_of_Sc r \<noteq> None \<and>
     Teacher_Shortage r \<noteq> None \<and> Total_Teachers_Recalc r \<noteq> None \<and> TotalToile r \<noteq> None"

definition map_data :: "school_record list \<Rightarrow> school_record list" where
  "map_data fdf = filter map_row_notna fdf"

text \<open>
  \<open>pd.cut(x, bins, labels)\<close> with the default right-closed intervals: the label of the
  first interval \<open>(lo, hi]\<close> of consecutive edges that holds the value, and NaN for a null
  and for a value in no interval.
\<close>

datatype edge = Edge int | PosInf

fun edge_less :: "edge \<Rightarrow> int \<Rightarrow> bool" where
  "edge_less (Edge b) v = (b < v)"
| "edge_less PosInf v = False"

fun le_edge :: "int \<Rightarrow> edge \<Rightarrow> bool" where
  "le_edge v (Edge b) = (v \<le> b)"
| "le_edge v PosInf = True"

fun pd_cut :: "int option \<Rightarrow> edge list \<Rightarrow> 'l list \<Rightarrow> 'l option" where
  "pd_cut None bins labels = None"
| "pd_cut (Some v) (lo # hi # bins) (l # labels) =
     (if edge_less lo v \<and> le_edge v hi then Some l
      else pd_cut (Some v) (hi # bins) labels)"
| "pd_cut (Some v) bins labels = None"

text \<open>
  The four labels of line 92; in the source each label text starts with a coloured
  square (green, yellow, orange, red).
\<close>

datatype level = No_Shortage | Low | Moderate | High

definition Shortage_Level :: "int option \<Rightarrow> level option" where
  "Shortage_Level s =
     pd_cut s [Edge (- 1), Edge 0, Edge 19, Edge 39, PosInf] [No_Shortage, Low, Moderate, High]"

text \<open>Line 114: \<open>map_data["No_Classrooms"] + map_data["TotalToile"]\<close>.\<close>

definition infra_color :: "school_record \<Rightarrow> int option" where
  "infra_color r = padd (Some (No_Classrooms r)) (TotalToile r)"

text \<open>The points handed to the two map figures, each with the value that colours it.\<close>

definition shortage_points :: "school_record list \<Rightarrow> (school_record \<times> level option) list" where
  "shortage_points md = map (\<lambda>r. (r, Shortage_Level (Teacher_Shortage r))) md"

definition infra_points :: "school_record list \<Rightarrow> (school_record \<times> int option) list" where
  "infra_points md = map (\<lambda>r. (r, infra_color r)) md"

subsection \<open>The views (lines 62 to 130)\<close>

text \<open>
  What the page shows for a filtered table: the three KPI totals, the per-district
  tables of lines 70 and 75 (the second bar chart shows \<open>top10\<close> of its table) and
  the points of the two maps.
\<close>

record views =
  kpi1 :: int
  kpi2 :: int
  kpi3 :: int
  ratio_chart :: "(string \<times> rat option) list"
  shortage_chart :: "(string \<times> int) list"
  fig_shortage :: "(school_record \<times> level option) list"
  fig_infra :: "(school_record \<times> int option) list"

definition render :: "school_record list \<Rightarrow> views" where
  "render fdf =
     \<lparr>kpi1 = psum (map TotalEnrol fdf),
      kpi2 = psum (map Total_Teachers_Recalc fdf),
      kpi3 = psum (map Teacher_Shortage fdf),
      ratio_chart = ratio_by_district fdf,
      shortage_chart = shortage_by_district fdf,
      fig_shortage = shortage_points (map_data fdf),
      fig_infra = infra_points (map_data fdf)\<rparr>"

subsection \<open>The whole script\<close>

text \<open>
  One run of the script on the rows of the file, with the strings the two select boxes
  return: preprocessing, the sidebar, the filter and the views, in that order. A raise
  of the sidebar ends the run before any view is built. A select box returns one of its
  options; the filter of lines 55 to 59 is modelled for any string, also one that names
  no province or district of the file.
\<close>

definition dashboard ::
  "raw_row list \<Rightarrow> string \<Rightarrow> string \<Rightarrow> error + sidebar \<times> views" where
  "dashboard raw province district =
     (case preprocess raw of
        Inl e \<Rightarrow> Inl e
      | Inr df \<Rightarrow>
          (case sidebar_options df province of
             Inl e \<Rightarrow> Inl e
           | Inr sb \<Rightarrow> Inr (sb, render (filtered_df df province district))))"

subsection \<open>The specification's reading of the columns\<close>

text \<open>The value a teacher count stands for once line 14 has filled the nulls.\<close>

definition null_as_zero :: "int option \<Rightarrow> int" where
  "null_as_zero c = (case c of None \<Rightarrow> 0 | Some x \<Rightarrow> x)"

text \<open>
  The specification's full valid data set and its three per-school quantities, written
  from its words and not from the script: a record is valid when its enrolment is
  non-null and above 0; the teacher count is the sum of the eight teacher fields, nulls
  as 0; the teachers required are the enrolment divided by 40 and rounded to the nearest
  integer, a half going to the even one; the shortage is the requirement less the
  teacher count, and 0 when that is negative.
\<close>

definition spec_valid :: "raw_row \<Rightarrow> bool" where
  "spec_valid r \<longleftrightarrow> TotalEnrol r \<noteq> None \<and> 0 < null_as_zero (TotalEnrol r)"

definition spec_enrolment :: "raw_row \<Rightarrow> int" where
  "spec_enrolment r = null_as_zero (TotalEnrol r)"

definition spec_teachers :: "raw_row \<Rightarrow> int" where
  "spec_teachers r =
     null_as_zero (GO_KTSC_M r) + null_as_zero (authorityM r) + null_as_zero (PTA_BOG_M r)
     + null_as_zero (OthersM r) + null_as_zero (GOK_TSC_F r) + null_as_zero (authorityF r)
     + null_as_zero (PTA_BOG_F r) + null_as_zero (OthersF r)"

definition spec_required :: "int \<Rightarrow> int" where
  "spec_required e =
     (if e mod 40 = 20 \<and> even (e div 40) then e div 40 else (e + 20) div 40)"

definition spec_shortage :: "raw_row \<Rightarrow> int" where
  "spec_shortage r = max 0 (spec_required (spec_enrolment r) - spec_teachers r)"

subsection \<open>Sample rows\<close>

text \<open>A row of the file with every cell null.\<close>

definition blank_row :: raw_row where
  "blank_row =
     \<lparr>Name_of_Sc = None, Province = None, District = None, Latitude = None,
      Longitude = None, TotalEnrol = None, TotalGirls = None, TotalBoys = None,
      GO_KTSC_M = None, authorityM = None, PTA_BOG_M = None, OthersM = None,
      GOK_TSC_F = None, authorityF = None, PTA_BOG_F = None, OthersF = None,
      PupilTeach = None, No_Classrm = None, TotalToile = None\<rparr>"

text \<open>
  A school of 100 pupils with seven teachers: \<open>100 / 40 = 2.5\<close> is a tie, and there are
  more teachers than the ratio asks for.
\<close>

definition surplus_school :: raw_row where
  "surplus_school =
     blank_row\<lparr>Name_of_Sc := Some ''Bahari'', Province := Some ''Coast'',
       District := Some ''Kilifi'', Latitude := Some (- 7 / 2), Longitude := Some (79 / 2),
       TotalEnrol := Some 100, GO_KTSC_M := Some 3, GOK_TSC_F := Some 4,
       PupilTeach := Some (100 / 7), No_Classrm := Some 8, TotalToile := Some 6\<rparr>"

definition surplus_school_derived :: school_record where
  "surplus_school_derived =
     raw_row.extend
       (surplus_school\<lparr>authorityM := Some 0, PTA_BOG_M := Some 0, OthersM := Some 0,
          authorityF := Some 0, PTA_BOG_F := Some 0, OthersF := Some 0\<rparr>)
       \<lparr>Male_Teachers = Some 3, Female_Teachers = Some 4, Total_Teachers_Recalc = Some 7,
        Teachers_Required = 2, Teacher_Shortage = Some 0, Gender_Enrol_Gap = None,
        No_Classrooms = 8, Toilet_Deficit = 0\<rparr>"

text \<open>A school of 400 pupils whose eight teacher counts are all missing.\<close>

definition unstaffed_school :: raw_row where
  "unstaffed_school =
     blank_row\<lparr>Name_of_Sc := Some ''Mlimani'', Province := Some ''Coast'',
       District := Some ''Kwale'', TotalEnrol := Some 400\<rparr>"

definition unstaffed_school_derived :: school_record where
  "unstaffed_school_derived =
     raw_row.extend
       (unstaffed_school\<lparr>GO_KTSC_M := Some 0, authorityM := Some 0, PTA_BOG_M := Some 0,
          OthersM := Some 0, GOK_TSC_F := Some 0, authorityF := Some 0, PTA_BOG_F := Some 0,
          OthersF := Some 0\<rparr>)
       \<lparr>Male_Teachers = Some 0, Female_Teachers = Some 0, Total_Teachers_Recalc = Some 0,
        Teachers_Required = 10, Teacher_Shortage = Some 10, Gender_Enrol_Gap = None,
        No_Classrooms = 0, Toilet_Deficit = 1\<rparr>"

text \<open>A school with coordinates and a name whose toilet count is missing.\<close>

definition no_toilet_school :: raw_row where
  "no_toilet_school =
     blank_row\<lparr>Name_of_Sc := Some ''Tumaini'', Province := Some ''Coast'',
       District := Some ''Kilifi'', Latitude := Some (- 4), Longitude := Some 39,
       TotalEnrol := Some 80, GO_KTSC_M := Some 1, No_Classrm := Some 2\<rparr>"

definition no_toilet_school_derived :: school_record where
  "no_toilet_school_derived =
     raw_row.extend
       (no_toilet_school\<lparr>authorityM := Some 0, PTA_BOG_M := Some 0,
          OthersM := Some 0, GOK_TSC_F := Some 0, authorityF := Some 0, PTA_BOG_F := Some 0,
          OthersF := Some 0\<rparr>)
       \<lparr>Male_Teachers = Some 1, Female_Teachers = Some 0, Total_Teachers_Recalc = Some 1,
        Teachers_Required = 2, Teacher_Shortage = Some 1, Gender_Enrol_Gap = None,
        No_Classrooms = 2, Toilet_Deficit = 1\<rparr>"

text \<open>A school with no pupils: line 9 drops it, whatever else the row holds.\<close>

definition closed_school :: raw_row where
  "closed_school =
     blank_row\<lparr>Name_of_Sc := Some ''Zamani'', Province := Some ''Coast'',
       District := Some ''Kwale'', Latitude := Some (- 4), Longitude := Some 39,
       TotalEnrol := Some 0, GO_KTSC_M := Some 5, TotalToile := Some 3\<rparr>"

text \<open>
  A school with coordinates, a name and a toilet count, whose district is missing:
  130 pupils ask for three teachers and it has one.
\<close>

definition no_district_school :: raw_row where
  "no_district_school =
     blank_row\<lparr>Name_of_Sc := Some ''Upendo'', Province := Some ''Coast'',
       Latitude := Some (- 3), Longitude := Some 40, TotalEnrol := Some 130,
       GOK_TSC_F := Some 1, PupilTeach := Some 130, No_Classrm := Some 4,
       TotalToile := Some 2\<rparr>"

definition no_district_school_derived :: school_record where
  "no_district_school_derived =
     raw_row.extend
       (no_district_school\<lparr>GO_KTSC_M := Some 0, authorityM := Some 0, PTA_BOG_M := Some 0,
          OthersM := Some 0, authorityF := Some 0, PTA_BOG_F := Some 0,
          OthersF := Some 0\<rparr>)
       \<lparr>Male_Teachers = Some 0, Female_Teachers = Some 1, Total_Teachers_Recalc = Some 1,
        Teachers_Required = 3, Teacher_Shortage = Some 2, Gender_Enrol_Gap = None,
        No_Classrooms = 4, Toilet_Deficit = 0\<rparr>"

section \<open>Properties\<close>

subsection \<open>Auxiliary facts\<close>

lemma padd_fillna:
  "padd (fillna 0 a) (fillna 0 b) = Some (null_as_zero a + null_as_zero b)"
  by (simp add: padd_def fillna_def null_as_zero_def split: option.splits)

lemma padd_Some_fillna:
  "padd (Some x) (fillna 0 b) = Some (x + null_as_zero b)"
  by (simp add: padd_def fillna_def null_as_zero_def split: option.splits)

lemma derive_enrol:
  assumes "derive r = Inr d"
  obtains e where "TotalEnrol r = Some e"
  using assms
  by (cases "TotalEnrol r")
     (simp_all add: derive_def Let_def fill_teacher_columns_def pdiv_def pround_def astype_int_def)

lemma derive_raw_fields:
  assumes "derive r = Inr d"
  shows "TotalEnrol d = TotalEnrol r" "Latitude d = Latitude r" "Longitude d = Longitude r"
    "Name_of_Sc d = Name_of_Sc r" "TotalToile d = TotalToile r"
    "Province d = Province r" "District d = District r"
  using assms
  by (auto simp: derive_def Let_def fill_teacher_columns_def raw_row.extend_def
      split: sum.splits)

lemma derive_teacher_fields:
  assumes "derive r = Inr d"
  shows "Male_Teachers d =
           Some (null_as_zero (GO_KTSC_M r) + null_as_zero (authorityM r)
                 + null_as_zero (PTA_BOG_M r) + null_as_zero (OthersM r))"
    and "Female_Teachers d =
           Some (null_as_zero (GOK_TSC_F r) + null_as_zero (authorityF r)
                 + null_as_zero (PTA_BOG_F r) + null_as_zero (OthersF r))"
    and "Total_Teachers_Recalc d = padd (Male_Teachers d) (Female_Teachers d)"
    and "Teacher_Shortage d =
           clip_lower 0 (psub (Some (Teachers_Required d)) (Total_Teachers_Recalc d))"
    and "astype_int (pround (pdiv (TotalEnrol r) 40)) = Inr (Teachers_Required d)"
  using assms
  by (auto simp: derive_def Let_def fill_teacher_columns_def raw_row.extend_def
      padd_fillna padd_Some_fillna split: sum.splits)

text \<open>Line 18 never raises on a row that line 9 keeps.\<close>

lemma derive_valid:
  assumes "valid_enrol r"
  shows "\<exists>d. derive r = Inr d"
  using assms
  by (cases "TotalEnrol r")
     (simp_all add: valid_enrol_def derive_def Let_def fill_teacher_columns_def pdiv_def
        pround_def astype_int_def)

lemma derive_all_total:
  assumes "\<forall>r \<in> set rs. valid_enrol r"
  shows "\<exists>ds. derive_all rs = Inr ds"
  using assms
proof (induction rs)
  case Nil
  show ?case by simp
next
  case (Cons r rs)
  from Cons.prems obtain d where "derive r = Inr d"
    using derive_valid by auto
  moreover from Cons obtain ds where "derive_all rs = Inr ds" by auto
  ultimately show ?case by simp
qed

lemma preprocess_total: "\<exists>df. preprocess raw = Inr df"
  unfolding preprocess_def validity_stage_def by (rule derive_all_total) simp

lemma derive_all_member:
  assumes "derive_all rs = Inr ds" and "d \<in> set ds"
  shows "\<exists>r \<in> set rs. derive r = Inr d"
  using assms
proof (induction rs arbitrary: ds)
  case Nil
  then show ?case by simp
next
  case (Cons r rs)
  then show ?case by (auto split: sum.splits)
qed

lemma derive_all_image:
  assumes "derive_all rs = Inr ds" and "r \<in> set rs"
  shows "\<exists>d \<in> set ds. derive r = Inr d"
  using assms
proof (induction rs arbitrary: ds)
  case Nil
  then show ?case by simp
next
  case (Cons r' rs)
  then show ?case by (auto split: sum.splits)
qed

lemma preprocess_member:
  assumes "preprocess raw = Inr df" and "d \<in> set df"
  obtains r where "r \<in> set raw" and "valid_enrol r" and "derive r = Inr d"
  using derive_all_member [OF assms [unfolded preprocess_def]]
  by (auto simp: validity_stage_def)

text \<open>
  Line 18 in integer arithmetic: the quotient and remainder of the enrolment by 40
  decide the rounding.
\<close>

lemma frac40:
  fixes e :: int
  shows "(of_int e :: rat) / 40 - of_int (e div 40) = of_int (e mod 40) / 40"
proof -
  have "e = 40 * (e div 40) + e mod 40" by simp
  then have "(of_int e :: rat) = 40 * of_int (e div 40) + of_int (e mod 40)"
    by (metis of_int_add of_int_mult of_int_numeral)
  then show ?thesis by (simp add: field_simps)
qed

lemma floor40:
  fixes e :: int
  shows "\<lfloor>(of_int e :: rat) / 40\<rfloor> = e div 40"
  using floor_divide_of_int_eq [of e 40, where ?'a = rat] by simp

lemma np_round_div40:
  "np_round (of_int e / 40) =
     of_int (if e mod 40 < 20 then e div 40
             else if 20 < e mod 40 then e div 40 + 1
             else if even (e div 40) then e div 40 else e div 40 + 1)"
proof -
  have lt: "(of_int (e mod 40) :: rat) / 40 < 1 / 2 \<longleftrightarrow> e mod 40 < 20"
  proof -
    have "(of_int (e mod 40) :: rat) / 40 < 1 / 2 \<longleftrightarrow> (of_int (e mod 40) :: rat) < of_int 20"
      by (simp add: field_simps)
    also have "\<dots> \<longleftrightarrow> e mod 40 < 20" by (simp only: of_int_less_iff)
    finally show ?thesis .
  qed
  have gt: "1 / 2 < (of_int (e mod 40) :: rat) / 40 \<longleftrightarrow> 20 < e mod 40"
  proof -
    have "1 / 2 < (of_int (e mod 40) :: rat) / 40 \<longleftrightarrow> (of_int 20 :: rat) < of_int (e mod 40)"
      by (simp add: field_simps)
    also have "\<dots> \<longleftrightarrow> 20 < e mod 40" by (simp only: of_int_less_iff)
    finally show ?thesis .
  qed
  show ?thesis
    unfolding np_round_def Let_def floor40 frac40 lt gt by simp
qed

lemma required_of_enrol:
  "astype_int (pround (pdiv (Some e) 40)) =
     Inr (if e mod 40 < 20 then e div 40
          else if 20 < e mod 40 then e div 40 + 1
          else if even (e div 40) then e div 40 else e div 40 + 1)"
  unfolding pdiv_def pround_def astype_int_def
  apply (simp only: option.case of_int_numeral np_round_div40)
  apply (simp only: of_int_0_le_iff floor_of_int ceiling_of_int if_cancel)
  done

lemma nearest_tie_even:
  fixes e :: int
  defines "T \<equiv> (if e mod 40 < 20 then e div 40
          else if 20 < e mod 40 then e div 40 + 1
          else if even (e div 40) then e div 40 else e div 40 + 1)"
  shows "\<bar>40 * T - e\<bar> \<le> 20" "\<bar>40 * T - e\<bar> = 20 \<Longrightarrow> even T" "0 \<le> e \<Longrightarrow> 0 \<le> T"
proof -
  define q where "q = e div 40"
  define m where "m = e mod 40"
  have e: "e = 40 * q + m" by (simp add: q_def m_def)
  have m: "0 \<le> m" "m < 40" by (simp_all add: m_def)
  have T: "T = (if m < 20 then q else if 20 < m then q + 1 else if even q then q else q + 1)"
    by (simp only: T_def q_def m_def)
  show "\<bar>40 * T - e\<bar> \<le> 20" using m unfolding T e by (simp split: if_splits)
  show "\<bar>40 * T - e\<bar> = 20 \<Longrightarrow> even T" using m unfolding T e by (simp split: if_splits)
  have "0 \<le> e \<Longrightarrow> 0 \<le> q" by (simp add: q_def pos_imp_zdiv_nonneg_iff)
  then show "0 \<le> e \<Longrightarrow> 0 \<le> T" unfolding T by (simp split: if_splits)
qed

text \<open>The three sample rows after preprocessing.\<close>

lemmas cell_defs = fillna_def padd_def psub_def clip_lower_def toilet_deficit_def
  classrooms_def

lemma surplus_school_preprocess:
  "preprocess [surplus_school] = Inr [surplus_school_derived]"
  by (simp add: preprocess_def validity_stage_def valid_enrol_def derive_def Let_def
      fill_teacher_columns_def surplus_school_def surplus_school_derived_def blank_row_def
      raw_row.extend_def required_of_enrol cell_defs)

lemma unstaffed_school_preprocess:
  "preprocess [unstaffed_school] = Inr [unstaffed_school_derived]"
  by (simp add: preprocess_def validity_stage_def valid_enrol_def derive_def Let_def
      fill_teacher_columns_def unstaffed_school_def unstaffed_school_derived_def blank_row_def
      raw_row.extend_def required_of_enrol cell_defs)

lemma no_toilet_school_preprocess:
  "preprocess [no_toilet_school] = Inr [no_toilet_school_derived]"
  by (simp add: preprocess_def validity_stage_def valid_enrol_def derive_def Let_def
      fill_teacher_columns_def no_toilet_school_def no_toilet_school_derived_def blank_row_def
      raw_row.extend_def required_of_enrol cell_defs)

lemma no_district_school_preprocess:
  "preprocess [no_district_school] = Inr [no_district_school_derived]"
  by (simp add: preprocess_def validity_stage_def valid_enrol_def derive_def Let_def
      fill_teacher_columns_def no_district_school_def no_district_school_derived_def
      blank_row_def raw_row.extend_def required_of_enrol cell_defs)

text \<open>The counts of the sample rows fit 32 bits.\<close>

lemma surplus_school_int32: "list_all int32_counts [surplus_school]"
  by (simp add: int32_counts_def int32_count_def surplus_school_def blank_row_def)

subsection \<open>Teacher shortage\<close>

text \<open>
  Claim C1. On a file whose counts fit 32 bits, every row of the preprocessed table has
  a total teacher count \<open>t\<close>, and its teacher shortage is \<open>max 0 (Teachers_Required - t)\<close>;
  so the shortage is never negative, also when the school has more teachers than the
  ratio asks for.
\<close>

theorem teacher_shortage_clipped:
  assumes "preprocess raw = Inr df" and "d \<in> set df" and "list_all int32_counts raw"
  shows "\<exists>t s. Total_Teachers_Recalc d = Some t \<and> Teacher_Shortage d = Some s \<and>
               s = max 0 (Teachers_Required d - t) \<and> 0 \<le> s"
proof -
  from assms(1,2) obtain r where "derive r = Inr d" by (rule preprocess_member)
  note f = derive_teacher_fields [OF this]
  from f(1,2,3) obtain t where t: "Total_Teachers_Recalc d = Some t"
    by (simp add: padd_def)
  with f(4) have "Teacher_Shortage d = Some (max 0 (Teachers_Required d - t))"
    by (simp add: clip_lower_def psub_def)
  with t show ?thesis by simp
qed

theorem teacher_shortage_clipped_witness:
  "preprocess [surplus_school] = Inr [surplus_school_derived] \<and>
   surplus_school_derived \<in> set [surplus_school_derived] \<and>
   list_all int32_counts [surplus_school] \<and>
   Total_Teachers_Recalc surplus_school_derived = Some 7 \<and>
   Teachers_Required surplus_school_derived = 2 \<and>
   Teacher_Shortage surplus_school_derived = Some 0"
proof -
  have p: "preprocess [surplus_school] = Inr [surplus_school_derived]"
    by (rule surplus_school_preprocess)
  have m: "surplus_school_derived \<in> set [surplus_school_derived]" by simp
  have v: "Total_Teachers_Recalc surplus_school_derived = Some 7"
    "Teachers_Required surplus_school_derived = 2"
    by (simp_all add: surplus_school_derived_def raw_row.extend_def)
  have b: "list_all int32_counts [surplus_school]" by (rule surplus_school_int32)
  from teacher_shortage_clipped [OF p m b] v
  have "Teacher_Shortage surplus_school_derived = Some 0" by auto
  with p m b v show ?thesis by simp
qed

text \<open>The teachers required of a derived row, from its enrolment.\<close>

lemma derive_required:
  assumes "derive r = Inr d" and "TotalEnrol r = Some e"
  shows "Teachers_Required d =
     (if e mod 40 < 20 then e div 40
      else if 20 < e mod 40 then e div 40 + 1
      else if even (e div 40) then e div 40 else e div 40 + 1)"
  using derive_teacher_fields(5) [OF assms(1)] unfolding assms(2) required_of_enrol
  by simp

subsection \<open>Teacher totals\<close>

text \<open>
  Claim C6. On a file whose counts fit 32 bits, every row of the preprocessed table
  comes from a row of the file; its male
  total is the sum of the four male teacher counts of that row and its female total the
  sum of the four female ones, a null count read as 0, and its total teacher count is
  exactly the male total plus the female total.
\<close>

theorem total_is_male_plus_female:
  assumes "preprocess raw = Inr df" and "d \<in> set df" and "list_all int32_counts raw"
  shows "\<exists>r \<in> set raw. \<exists>m f. derive r = Inr d \<and>
           m = null_as_zero (GO_KTSC_M r) + null_as_zero (authorityM r)
               + null_as_zero (PTA_BOG_M r) + null_as_zero (OthersM r) \<and>
           f = null_as_zero (GOK_TSC_F r) + null_as_zero (authorityF r)
               + null_as_zero (PTA_BOG_F r) + null_as_zero (OthersF r) \<and>
           Male_Teachers d = Some m \<and> Female_Teachers d = Some f \<and>
           Total_Teachers_Recalc d = Some (m + f)"
proof -
  from assms(1,2) obtain r where r: "r \<in> set raw" "derive r = Inr d"
    by (rule preprocess_member)
  note f = derive_teacher_fields [OF r(2)]
  have "Total_Teachers_Recalc d =
      Some (null_as_zero (GO_KTSC_M r) + null_as_zero (authorityM r)
               + null_as_zero (PTA_BOG_M r) + null_as_zero (OthersM r)
          + (null_as_zero (GOK_TSC_F r) + null_as_zero (authorityF r)
               + null_as_zero (PTA_BOG_F r) + null_as_zero (OthersF r)))"
    unfolding f(3) f(1) f(2) by (simp add: padd_def)
  with r f(1,2) show ?thesis by blast
qed

theorem total_is_male_plus_female_witness:
  "preprocess [surplus_school] = Inr [surplus_school_derived] \<and>
   surplus_school_derived \<in> set [surplus_school_derived] \<and>
   list_all int32_counts [surplus_school] \<and>
   Male_Teachers surplus_school_derived = Some 3 \<and>
   Female_Teachers surplus_school_derived = Some 4 \<and>
   Total_Teachers_Recalc surplus_school_derived = Some (3 + 4)"
proof -
  have p: "preprocess [surplus_school] = Inr [surplus_school_derived]"
    by (rule surplus_school_preprocess)
  have m: "surplus_school_derived \<in> set [surplus_school_derived]" by simp
  have "Male_Teachers surplus_school_derived = Some 3 \<and>
        Female_Teachers surplus_school_derived = Some 4 \<and>
        Total_Teachers_Recalc surplus_school_derived = Some (3 + 4)"
    using total_is_male_plus_female [OF p m surplus_school_int32]
    by (simp add: surplus_school_def blank_row_def null_as_zero_def)
  with p m surplus_school_int32 show ?thesis by simp
qed

subsection \<open>Teachers required\<close>

text \<open>
  Claim C9. On a file whose counts fit 32 bits, for every row of the preprocessed table
  with enrolment \<open>e\<close>, the teachers
  required \<open>T\<close> is the integer nearest to \<open>e / 40\<close>, a tie going to the even integer
  (round-half-to-even, one fixed rounding mode), and \<open>T\<close> is not negative. The distance
  is written without fractions: \<open>40 * T - e\<close> is 40 times \<open>T - e / 40\<close>.
\<close>

theorem teachers_required_rounding:
  assumes "preprocess raw = Inr df" and "d \<in> set df" and "list_all int32_counts raw"
  shows "\<exists>e. TotalEnrol d = Some e \<and> 0 < e \<and>
             \<bar>40 * Teachers_Required d - e\<bar> \<le> 20 \<and>
             (\<bar>40 * Teachers_Required d - e\<bar> = 20 \<longrightarrow> even (Teachers_Required d)) \<and>
             0 \<le> Teachers_Required d"
proof -
  from assms(1,2) obtain r where r: "valid_enrol r" "derive r = Inr d"
    by (rule preprocess_member)
  from r(1) obtain e where e: "TotalEnrol r = Some e" "0 < e"
    by (auto simp: valid_enrol_def split: option.splits)
  have enrol: "TotalEnrol d = Some e" using derive_raw_fields(1) [OF r(2)] e(1) by simp
  note T = derive_required [OF r(2) e(1)]
  have near: "\<bar>40 * Teachers_Required d - e\<bar> \<le> 20"
    unfolding T by (rule nearest_tie_even(1))
  have tie: "\<bar>40 * Teachers_Required d - e\<bar> = 20 \<longrightarrow> even (Teachers_Required d)"
    unfolding T by (rule impI) (rule nearest_tie_even(2))
  have nonneg: "0 \<le> Teachers_Required d"
    unfolding T using e(2) by (intro nearest_tie_even(3)) simp
  from enrol e(2) near tie nonneg show ?thesis by blast
qed

theorem teachers_required_rounding_witness:
  "preprocess [surplus_school] = Inr [surplus_school_derived] \<and>
   surplus_school_derived \<in> set [surplus_school_derived] \<and>
   list_all int32_counts [surplus_school] \<and>
   TotalEnrol surplus_school_derived = Some 100 \<and>
   Teachers_Required surplus_school_derived = 2 \<and>
   \<bar>40 * Teachers_Required surplus_school_derived - 100\<bar> = 20 \<and>
   even (Teachers_Required surplus_school_derived)"
proof -
  have p: "preprocess [surplus_school] = Inr [surplus_school_derived]"
    by (rule surplus_school_preprocess)
  have m: "surplus_school_derived \<in> set [surplus_school_derived]" by simp
  have v: "TotalEnrol surplus_school_derived = Some 100"
    "Teachers_Required surplus_school_derived = 2"
    by (simp_all add: surplus_school_derived_def surplus_school_def blank_row_def
        raw_row.extend_def)
  from teachers_required_rounding [OF p m surplus_school_int32] v
  have "even (Teachers_Required surplus_school_derived)" by auto
  with p m surplus_school_int32 v show ?thesis by simp
qed

subsection \<open>Rows without teacher data\<close>

text \<open>
  Claim C5. A row of the file that passes the enrolment check and whose eight teacher
  counts are all null is derived without error into a row of the table with male total
  0, female total 0, total teacher count 0 and a teacher shortage equal to the teachers
  required.
\<close>

theorem all_null_teacher_counts:
  assumes "preprocess raw = Inr df" and "r \<in> set raw" and "valid_enrol r"
    and "GO_KTSC_M r = None" "authorityM r = None" "PTA_BOG_M r = None" "OthersM r = None"
    and "GOK_TSC_F r = None" "authorityF r = None" "PTA_BOG_F r = None" "OthersF r = None"
  shows "\<exists>d \<in> set df. derive r = Inr d \<and>
           Male_Teachers d = Some 0 \<and> Female_Teachers d = Some 0 \<and>
           Total_Teachers_Recalc d = Some 0 \<and>
           Teacher_Shortage d = Some (Teachers_Required d)"
proof -
  from assms(2,3) have "r \<in> set (validity_stage raw)" by (simp add: validity_stage_def)
  with assms(1) obtain d where d: "d \<in> set df" "derive r = Inr d"
    unfolding preprocess_def using derive_all_image by blast
  note f = derive_teacher_fields [OF d(2)]
  from assms(3) obtain e where e: "TotalEnrol r = Some e" "0 < e"
    by (auto simp: valid_enrol_def split: option.splits)
  have nonneg: "0 \<le> Teachers_Required d"
    unfolding derive_required [OF d(2) e(1)] using nearest_tie_even(3) [of e] e(2) by simp
  have male: "Male_Teachers d = Some 0" and female: "Female_Teachers d = Some 0"
    using f(1,2) assms(4-) by (simp_all add: null_as_zero_def)
  have total: "Total_Teachers_Recalc d = Some 0"
    unfolding f(3) male female by (simp add: padd_def)
  have "Teacher_Shortage d = Some (Teachers_Required d)"
    unfolding f(4) total using nonneg by (simp add: clip_lower_def psub_def)
  with d male female total show ?thesis by blast
qed

theorem all_null_teacher_counts_witness:
  "preprocess [unstaffed_school] = Inr [unstaffed_school_derived] \<and>
   unstaffed_school \<in> set [unstaffed_school] \<and> valid_enrol unstaffed_school \<and>
   GO_KTSC_M unstaffed_school = None \<and> authorityM unstaffed_school = None \<and>
   PTA_BOG_M unstaffed_school = None \<and> OthersM unstaffed_school = None \<and>
   GOK_TSC_F unstaffed_school = None \<and> authorityF unstaffed_school = None \<and>
   PTA_BOG_F unstaffed_school = None \<and> OthersF unstaffed_school = None \<and>
   Total_Teachers_Recalc unstaffed_school_derived = Some 0 \<and>
   Teachers_Required unstaffed_school_derived = 10 \<and>
   Teacher_Shortage unstaffed_school_derived = Some 10"
proof -
  have p: "preprocess [unstaffed_school] = Inr [unstaffed_school_derived]"
    by (rule unstaffed_school_preprocess)
  have m: "unstaffed_school \<in> set [unstaffed_school]" by simp
  have v: "valid_enrol unstaffed_school"
    by (simp add: valid_enrol_def unstaffed_school_def blank_row_def)
  have n: "GO_KTSC_M unstaffed_school = None" "authorityM unstaffed_school = None"
    "PTA_BOG_M unstaffed_school = None" "OthersM unstaffed_school = None"
    "GOK_TSC_F unstaffed_school = None" "authorityF unstaffed_school = None"
    "PTA_BOG_F unstaffed_school = None" "OthersF unstaffed_school = None"
    by (simp_all add: unstaffed_school_def blank_row_def)
  have q: "Teachers_Required unstaffed_school_derived = 10"
    by (simp add: unstaffed_school_derived_def raw_row.extend_def)
  from all_null_teacher_counts [OF p m v n] q
  have "Total_Teachers_Recalc unstaffed_school_derived = Some 0 \<and>
        Teacher_Shortage unstaffed_school_derived = Some 10" by simp
  with p m v n q show ?thesis by simp
qed

subsection \<open>Severity buckets\<close>

text \<open>
  Claim C3. On shortages \<open>s \<ge> 0\<close> the bucketing of line 89 is total and its four buckets
  do not overlap: the label is No Shortage exactly for \<open>s = 0\<close>, Low exactly for
  \<open>1 \<le> s \<le> 19\<close>, Moderate exactly for \<open>20 \<le> s \<le> 39\<close> and High exactly for \<open>40 \<le> s\<close>,
  and a label is always assigned.
\<close>

theorem shortage_level_partition:
  assumes "0 \<le> s"
  shows "(Shortage_Level (Some s) = Some No_Shortage \<longleftrightarrow> s = 0) \<and>
         (Shortage_Level (Some s) = Some Low \<longleftrightarrow> 1 \<le> s \<and> s \<le> 19) \<and>
         (Shortage_Level (Some s) = Some Moderate \<longleftrightarrow> 20 \<le> s \<and> s \<le> 39) \<and>
         (Shortage_Level (Some s) = Some High \<longleftrightarrow> 40 \<le> s) \<and>
         Shortage_Level (Some s) \<noteq> None"
  using assms by (simp add: Shortage_Level_def)

theorem shortage_level_partition_witness:
  "(0::int) \<le> 19 \<and> Shortage_Level (Some 0) = Some No_Shortage \<and>
   Shortage_Level (Some 19) = Some Low \<and> Shortage_Level (Some 20) = Some Moderate \<and>
   Shortage_Level (Some 39) = Some Moderate \<and> Shortage_Level (Some 40) = Some High"
  using shortage_level_partition [of 0] shortage_level_partition [of 19]
    shortage_level_partition [of 20] shortage_level_partition [of 39]
    shortage_level_partition [of 40]
  by simp

subsection \<open>Record filter\<close>

text \<open>The region stage applied twice, and the two stages in either order.\<close>

lemma filtered_df_idem:
  "filtered_df (filtered_df rows p d) p d = filtered_df rows p d"
  by (auto simp: filtered_df_def Let_def intro!: filter_cong)

lemma validity_filtered_df:
  "validity_stage (filtered_df rows p d) = filtered_df (validity_stage rows) p d"
  by (auto simp: filtered_df_def validity_stage_def Let_def intro: filter_cong)

text \<open>
  Claim C7. The Record Filter (the enrolment check followed by the province and district
  selection) is idempotent: applied with the same selectors to a table it has already
  filtered, it returns that table unchanged.
\<close>

theorem record_filter_idempotent:
  "record_filter (record_filter rows province district) province district =
   record_filter rows province district"
proof -
  have "validity_stage (validity_stage rows) = validity_stage rows"
    by (simp add: validity_stage_def)
  then show ?thesis
    unfolding record_filter_def validity_filtered_df filtered_df_idem by simp
qed

subsection \<open>Runs of the script\<close>

text \<open>
  A run that reaches the views has preprocessed the file and built the sidebar, and its
  views are those of the filtered table.
\<close>

lemma dashboard_Inr:
  assumes "dashboard raw p d = Inr (sb, v)"
  obtains df where "preprocess raw = Inr df" and "sidebar_options df p = Inr sb"
    and "v = render (filtered_df df p d)"
  using assms by (auto simp: dashboard_def split: sum.splits)

lemma dashboard_eval:
  assumes "preprocess raw = Inr df" and "sidebar_options df p = Inr sb"
  shows "dashboard raw p d = Inr (sb, render (filtered_df df p d))"
  using assms by (simp add: dashboard_def)

text \<open>The selection All/All keeps every row, and no selection adds one.\<close>

lemma filtered_df_All: "filtered_df df ''All'' ''All'' = df"
  by (simp add: filtered_df_def)

lemma set_filtered_df: "set (filtered_df df p d) \<subseteq> set df"
  by (auto simp: filtered_df_def Let_def)

text \<open>The sample rows, unfolded.\<close>

lemmas sample_defs = surplus_school_def surplus_school_derived_def unstaffed_school_def
  unstaffed_school_derived_def no_toilet_school_def no_toilet_school_derived_def
  no_district_school_def no_district_school_derived_def closed_school_def blank_row_def
  raw_row.extend_def

text \<open>
  The sidebar can end a run: with a null province beside a named one, line 30 raises.
\<close>

lemma sidebar_raises_example:
  "dashboard [surplus_school, unstaffed_school\<lparr>Province := None\<rparr>] ''All'' ''All'' =
     Inl TypeError"
  by (simp add: dashboard_def preprocess_def validity_stage_def valid_enrol_def derive_def
      Let_def fill_teacher_columns_def sample_defs required_of_enrol cell_defs
      sidebar_options_def py_sorted_def unique_def)

text \<open>The bar chart of line 76: some choice of bars always exists, and an empty table has none.\<close>

lemma top10_Nil: "top10 [] bars \<longleftrightarrow> bars = []"
proof
  assume "top10 [] bars"
  then show "bars = []" by (cases rule: top10.cases) simp
next
  assume "bars = []"
  moreover have "top10 [] (take 10 [])" by (rule top10.intros) simp_all
  ultimately show "top10 [] bars" by simp
qed

lemma top10_total: "\<exists>bars. top10 tbl bars"
proof -
  let ?ys = "rev (sort_key snd tbl)"
  have "mset ?ys = mset tbl" by simp
  moreover have "sorted_wrt (\<lambda>a b. snd b \<le> snd a) ?ys"
  proof -
    have "sorted (map snd (sort_key snd tbl))" by (rule sorted_sort_key)
    then have "sorted_wrt (\<lambda>a b. snd a \<le> snd b) (sort_key snd tbl)"
      by (simp add: sorted_map)
    then show ?thesis by (simp add: sorted_wrt_rev)
  qed
  ultimately show ?thesis by (blast intro: top10.intros)
qed

subsection \<open>KPI totals without a region filter\<close>

text \<open>
  The columns of a derived row are the specification's quantities of the row it comes
  from, and line 9 keeps exactly the specification's valid records.
\<close>

lemma derived_spec:
  assumes "valid_enrol r" and "derive r = Inr d"
  shows "spec_valid r"
    and "TotalEnrol d = Some (spec_enrolment r)"
    and "Total_Teachers_Recalc d = Some (spec_teachers r)"
    and "Teacher_Shortage d = Some (spec_shortage r)"
proof -
  from assms(1) obtain e where e: "TotalEnrol r = Some e" "0 < e"
    by (auto simp: valid_enrol_def split: option.splits)
  show "spec_valid r" using e by (simp add: spec_valid_def null_as_zero_def)
  show enrol: "TotalEnrol d = Some (spec_enrolment r)"
    using derive_raw_fields(1) [OF assms(2)] e
    by (simp add: spec_enrolment_def null_as_zero_def)
  note f = derive_teacher_fields [OF assms(2)]
  show total: "Total_Teachers_Recalc d = Some (spec_teachers r)"
    unfolding f(3) f(1) f(2) by (simp add: padd_def spec_teachers_def)
  have "Teachers_Required d = spec_required e"
  proof -
    define q where "q = e div 40"
    define m where "m = e mod 40"
    have m: "0 \<le> m" "m < 40" by (simp_all add: m_def)
    have "(e + 20) div 40 = (if m < 20 then q else q + 1)"
    proof -
      have "e = 40 * q + m" by (simp add: q_def m_def)
      then have "e + 20 = 40 * q + (m + 20)" by simp
      then have "(e + 20) div 40 = q + (m + 20) div 40"
        by (metis div_mult_self2 add.commute zero_neq_numeral)
      moreover have "(m + 20) div 40 = (if m < 20 then 0 else 1)"
        using m by auto
      ultimately show ?thesis by simp
    qed
    then show ?thesis
      unfolding derive_required [OF assms(2) e(1)] spec_required_def
        q_def [symmetric] m_def [symmetric]
      by auto
  qed
  then show "Teacher_Shortage d = Some (spec_shortage r)"
    unfolding f(4) total
    using e by (simp add: clip_lower_def psub_def spec_shortage_def spec_enrolment_def
        null_as_zero_def)
qed


lemma valid_enrol_spec: "valid_enrol r \<longleftrightarrow> spec_valid r"
  by (simp add: valid_enrol_def spec_valid_def null_as_zero_def split: option.splits)

lemma derive_all_sums:
  assumes "derive_all rs = Inr ds" and "\<forall>r \<in> set rs. valid_enrol r"
  shows "psum (map TotalEnrol ds) = (\<Sum>r\<leftarrow>rs. spec_enrolment r)"
    and "psum (map Total_Teachers_Recalc ds) = (\<Sum>r\<leftarrow>rs. spec_teachers r)"
    and "psum (map Teacher_Shortage ds) = (\<Sum>r\<leftarrow>rs. spec_shortage r)"
  using assms
proof (induction rs arbitrary: ds)
  case Nil
  {
    case 1 then show ?case by simp
  next
    case 2 then show ?case by simp
  next
    case 3 then show ?case by simp
  }
next
  case (Cons r rs)
  {
    case 1
    then obtain d ds' where d: "derive r = Inr d" "derive_all rs = Inr ds'" "ds = d # ds'"
      by (auto split: sum.splits)
    from 1 have "valid_enrol r" "\<forall>r \<in> set rs. valid_enrol r" by simp_all
    with d Cons.IH(1) [of ds'] derived_spec(2) [of r d] show ?case by simp
  next
    case 2
    then obtain d ds' where d: "derive r = Inr d" "derive_all rs = Inr ds'" "ds = d # ds'"
      by (auto split: sum.splits)
    from 2 have "valid_enrol r" "\<forall>r \<in> set rs. valid_enrol r" by simp_all
    with d Cons.IH(2) [of ds'] derived_spec(3) [of r d] show ?case by simp
  next
    case 3
    then obtain d ds' where d: "derive r = Inr d" "derive_all rs = Inr ds'" "ds = d # ds'"
      by (auto split: sum.splits)
    from 3 have "valid_enrol r" "\<forall>r \<in> set rs. valid_enrol r" by simp_all
    with d Cons.IH(3) [of ds'] derived_spec(4) [of r d] show ?case by simp
  }
qed

text \<open>
  Claim C8. On a file of modest size, when the script runs to its views with both
  selectors \<open>All\<close>, its three KPI totals are the sums of the enrolment, of the teacher
  count and of the teacher shortage over the full valid data set: all records of the
  file with a non-null enrolment above 0, each quantity as the specification defines it.
\<close>

theorem kpi_all_all:
  assumes "dashboard raw ''All'' ''All'' = Inr (sb, v)" and "modest raw"
  shows "kpi1 v = (\<Sum>r\<leftarrow>filter spec_valid raw. spec_enrolment r) \<and>
         kpi2 v = (\<Sum>r\<leftarrow>filter spec_valid raw. spec_teachers r) \<and>
         kpi3 v = (\<Sum>r\<leftarrow>filter spec_valid raw. spec_shortage r)"
proof -
  from assms(1) obtain df where df: "preprocess raw = Inr df"
    and v: "v = render (filtered_df df ''All'' ''All'')"
    by (rule dashboard_Inr)
  have valid: "validity_stage raw = filter spec_valid raw"
    unfolding validity_stage_def by (rule filter_cong) (simp_all add: valid_enrol_spec)
  have "derive_all (filter spec_valid raw) = Inr df"
    using df by (simp add: preprocess_def valid)
  moreover have "\<forall>r \<in> set (filter spec_valid raw). valid_enrol r"
    by (simp add: valid_enrol_spec)
  ultimately show ?thesis
    unfolding v filtered_df_All using derive_all_sums by (simp add: render_def)
qed

text \<open>A file of three schools, one of them without pupils.\<close>

lemma three_schools_preprocess:
  "preprocess [surplus_school, closed_school, unstaffed_school] =
     Inr [surplus_school_derived, unstaffed_school_derived]"
  by (simp add: preprocess_def validity_stage_def valid_enrol_def derive_def Let_def
      fill_teacher_columns_def sample_defs required_of_enrol cell_defs)

lemma three_schools_sidebar:
  "sidebar_options [surplus_school_derived, unstaffed_school_derived] ''All'' =
     Inr \<lparr>province_options = [Some ''All'', Some ''Coast''],
          district_options = [Some ''All'', Some ''Kilifi'', Some ''Kwale'']\<rparr>"
  by (simp add: sidebar_options_def py_sorted_def unique_def sample_defs)

lemma three_schools_modest: "modest [surplus_school, closed_school, unstaffed_school]"
  by (simp add: modest_def int32_counts_def int32_count_def sample_defs)

theorem kpi_all_all_witness:
  "dashboard [surplus_school, closed_school, unstaffed_school] ''All'' ''All'' =
     Inr (\<lparr>province_options = [Some ''All'', Some ''Coast''],
           district_options = [Some ''All'', Some ''Kilifi'', Some ''Kwale'']\<rparr>,
          render [surplus_school_derived, unstaffed_school_derived]) \<and>
   modest [surplus_school, closed_school, unstaffed_school] \<and>
   kpi1 (render [surplus_school_derived, unstaffed_school_derived]) = 500 \<and>
   kpi2 (render [surplus_school_derived, unstaffed_school_derived]) = 7 \<and>
   kpi3 (render [surplus_school_derived, unstaffed_school_derived]) = 10"
proof -
  have d: "dashboard [surplus_school, closed_school, unstaffed_school] ''All'' ''All'' =
     Inr (\<lparr>province_options = [Some ''All'', Some ''Coast''],
           district_options = [Some ''All'', Some ''Kilifi'', Some ''Kwale'']\<rparr>,
          render [surplus_school_derived, unstaffed_school_derived])"
    using dashboard_eval [OF three_schools_preprocess three_schools_sidebar, of "''All''"]
    by (simp add: filtered_df_All)
  have valid: "filter spec_valid [surplus_school, closed_school, unstaffed_school] =
      [surplus_school, unstaffed_school]"
    by (simp add: spec_valid_def null_as_zero_def sample_defs)
  have vals: "spec_enrolment surplus_school = 100" "spec_enrolment unstaffed_school = 400"
    "spec_teachers surplus_school = 7" "spec_teachers unstaffed_school = 0"
    "spec_shortage surplus_school = 0" "spec_shortage unstaffed_school = 10"
    by (simp_all add: spec_shortage_def spec_required_def spec_enrolment_def spec_teachers_def
        null_as_zero_def sample_defs)
  from kpi_all_all [OF d three_schools_modest]
  have "kpi1 (render [surplus_school_derived, unstaffed_school_derived]) = 500 \<and>
   kpi2 (render [surplus_school_derived, unstaffed_school_derived]) = 7 \<and>
   kpi3 (render [surplus_school_derived, unstaffed_school_derived]) = 10"
    unfolding valid by (simp add: vals)
  with d three_schools_modest show ?thesis by blast
qed

subsection \<open>Empty selection\<close>

text \<open>
  Claim C4. The views of lines 62 to 130 are a total function of the filtered table:
  nothing in them can raise. When the selection leaves no row, the three KPI totals are
  0, both per-district tables are empty and both map point sets are empty, and the bar
  chart of line 76 has no bar.
\<close>

theorem empty_filter_result:
  assumes "filtered_df df province district = []"
  shows "render (filtered_df df province district) =
           \<lparr>kpi1 = 0, kpi2 = 0, kpi3 = 0, ratio_chart = [], shortage_chart = [],
            fig_shortage = [], fig_infra = []\<rparr> \<and>
         (top10 (shortage_chart (render (filtered_df df province district))) bars
            \<longleftrightarrow> bars = [])"
  unfolding assms
  by (simp add: render_def ratio_by_district_def shortage_by_district_def
      groupby_District_def group_keys_def map_data_def shortage_points_def
      infra_points_def top10_Nil)

theorem empty_filter_result_witness:
  "filtered_df [surplus_school_derived] ''Nairobi'' ''All'' = [] \<and>
   render (filtered_df [surplus_school_derived] ''Nairobi'' ''All'') =
     \<lparr>kpi1 = 0, kpi2 = 0, kpi3 = 0, ratio_chart = [], shortage_chart = [],
      fig_shortage = [], fig_infra = []\<rparr> \<and>
   top10 (shortage_chart (render (filtered_df [surplus_school_derived] ''Nairobi'' ''All''))) []"
proof -
  have f: "filtered_df [surplus_school_derived] ''Nairobi'' ''All'' = []"
    by (simp add: filtered_df_def sample_defs)
  from f empty_filter_result [OF f, of "[]"] show ?thesis by blast
qed


subsection \<open>Map points\<close>

text \<open>
  What preprocessing guarantees of the columns the maps read, and the rows behind the
  points of the two maps.
\<close>

lemma derived_shortage_nonneg:
  assumes "derive r = Inr d"
  shows "\<exists>s. Teacher_Shortage d = Some s \<and> 0 \<le> s"
proof -
  note f = derive_teacher_fields [OF assms]
  from f(1,2,3) obtain t where "Total_Teachers_Recalc d = Some t"
    by (simp add: padd_def)
  with f(4) show ?thesis by (simp add: clip_lower_def psub_def)
qed

lemma derived_total_notna:
  assumes "derive r = Inr d"
  shows "Total_Teachers_Recalc d \<noteq> None"
  using derive_teacher_fields(1,2,3) [OF assms] by (simp add: padd_def)

lemma Shortage_Level_defined:
  assumes "0 \<le> s"
  shows "Shortage_Level (Some s) \<noteq> None"
  using assms by (simp add: Shortage_Level_def)

lemma map_points:
  "map fst (fig_shortage (render fdf)) = map_data fdf"
  "map fst (fig_infra (render fdf)) = map_data fdf"
  by (simp_all add: render_def shortage_points_def infra_points_def comp_def)

text \<open>
  Claim C10. Whenever the script runs to its views, for any file and any selection, the
  teacher shortage map and the infrastructure map show the same schools in the same
  order, the rows of the one table left by line 83; every point of the first has a
  severity label and every point of the second has a score, so neither map loses a
  point for want of a colour.
\<close>

theorem maps_share_points:
  assumes "dashboard raw province district = Inr (sb, v)"
  shows "map fst (fig_shortage v) = map fst (fig_infra v) \<and>
         (\<forall>x \<in> set (fig_shortage v). snd x \<noteq> None) \<and>
         (\<forall>x \<in> set (fig_infra v). snd x \<noteq> None)"
proof -
  from assms obtain df where df: "preprocess raw = Inr df"
    and v: "v = render (filtered_df df province district)"
    by (rule dashboard_Inr)
  let ?fdf = "filtered_df df province district"
  have same: "map fst (fig_shortage v) = map fst (fig_infra v)"
    unfolding v by (simp only: map_points)
  have labelled: "\<forall>x \<in> set (fig_shortage v). snd x \<noteq> None"
  proof
    fix x assume "x \<in> set (fig_shortage v)"
    then obtain r where r: "r \<in> set (map_data ?fdf)"
      and x: "x = (r, Shortage_Level (Teacher_Shortage r))"
      unfolding v by (auto simp: render_def shortage_points_def)
    from r have "r \<in> set df" using set_filtered_df by (auto simp: map_data_def)
    with df obtain r0 where "derive r0 = Inr r" by (rule preprocess_member)
    then obtain s where "Teacher_Shortage r = Some s" "0 \<le> s"
      using derived_shortage_nonneg by blast
    then show "snd x \<noteq> None" unfolding x by (simp add: Shortage_Level_defined)
  qed
  have scored: "\<forall>x \<in> set (fig_infra v). snd x \<noteq> None"
    unfolding v
    by (auto simp: render_def infra_points_def infra_color_def map_data_def
        map_row_notna_def padd_def)
  from same labelled scored show ?thesis by blast
qed

lemma surplus_school_sidebar:
  "sidebar_options [surplus_school_derived] ''All'' =
     Inr \<lparr>province_options = [Some ''All'', Some ''Coast''],
          district_options = [Some ''All'', Some ''Kilifi'']\<rparr>"
  by (simp add: sidebar_options_def py_sorted_def unique_def sample_defs)

theorem maps_share_points_witness:
  "dashboard [surplus_school] ''All'' ''All'' =
     Inr (\<lparr>province_options = [Some ''All'', Some ''Coast''],
           district_options = [Some ''All'', Some ''Kilifi'']\<rparr>,
          render [surplus_school_derived]) \<and>
   map fst (fig_shortage (render [surplus_school_derived])) =
     map fst (fig_infra (render [surplus_school_derived])) \<and>
   fig_shortage (render [surplus_school_derived]) =
     [(surplus_school_derived, Some No_Shortage)] \<and>
   fig_infra (render [surplus_school_derived]) = [(surplus_school_derived, Some 14)]"
proof -
  have d: "dashboard [surplus_school] ''All'' ''All'' =
     Inr (\<lparr>province_options = [Some ''All'', Some ''Coast''],
           district_options = [Some ''All'', Some ''Kilifi'']\<rparr>,
          render [surplus_school_derived])"
    using dashboard_eval [OF surplus_school_preprocess surplus_school_sidebar, of "''All''"]
    by (simp add: filtered_df_All)
  from maps_share_points [OF d]
  have s: "map fst (fig_shortage (render [surplus_school_derived])) =
     map fst (fig_infra (render [surplus_school_derived]))"
    by blast
  have l: "fig_shortage (render [surplus_school_derived]) =
     [(surplus_school_derived, Some No_Shortage)]"
    by (simp add: render_def shortage_points_def Shortage_Level_def map_data_def
        map_row_notna_def sample_defs)
  have i: "fig_infra (render [surplus_school_derived]) = [(surplus_school_derived, Some 14)]"
    by (simp add: render_def infra_points_def infra_color_def map_data_def
        map_row_notna_def padd_def sample_defs)
  from d s l i show ?thesis by blast
qed

text \<open>
  A row's share of a column total, and the keys of the per-district tables: the
  non-null districts of the rows.
\<close>

lemma psum_remove1:
  assumes "r \<in> set xs"
  shows "psum (map f xs) = null_as_zero (f r) + psum (map f (remove1 r xs))"
  using assms
proof (induction xs)
  case Nil
  then show ?case by simp
next
  case (Cons x xs)
  show ?case
  proof (cases "x = r")
    case True
    then show ?thesis by (cases "f r") (simp_all add: null_as_zero_def)
  next
    case False
    with Cons show ?thesis by (cases "f x") simp_all
  qed
qed

lemma set_notna_values: "set (notna_values cs) = {x. Some x \<in> set cs}"
proof (induction cs)
  case Nil
  show ?case by simp
next
  case (Cons c cs)
  then show ?case by (cases c) auto
qed

lemma set_group_keys: "set (group_keys rows) = {k. \<exists>r \<in> set rows. District r = Some k}"
  by (force simp: group_keys_def set_notna_values image_iff)

lemma table_keys:
  "map fst (ratio_by_district rows) = group_keys rows"
  "map fst (shortage_by_district rows) = group_keys rows"
  by (simp_all add: ratio_by_district_def shortage_by_district_def groupby_District_def
      comp_def)

lemma no_toilet_school_sidebar:
  "sidebar_options [no_toilet_school_derived] ''All'' =
     Inr \<lparr>province_options = [Some ''All'', Some ''Coast''],
          district_options = [Some ''All'', Some ''Kilifi'']\<rparr>"
  by (simp add: sidebar_options_def py_sorted_def unique_def sample_defs)

lemma no_district_school_sidebar:
  "sidebar_options [no_district_school_derived] ''All'' =
     Inr \<lparr>province_options = [Some ''All'', Some ''Coast''],
          district_options = [Some ''All'', None]\<rparr>"
  by (simp add: sidebar_options_def py_sorted_def unique_def sample_defs)

text \<open>
  Claim C2 as stated fails, in both of its halves. On the file with the one school
  \<open>no_toilet_school\<close>, which has a latitude and a longitude, the script runs to its
  views with both selectors \<open>All\<close>, counts the school in the KPI totals and the
  per-district tables, and shows no point on either map: line 83 also drops a row whose
  toilet count is null. On the file with the one school \<open>no_district_school\<close>, which has
  a latitude and a longitude too, the school is on both maps and in the KPI totals, but
  both per-district tables are empty: \<open>groupby\<close> leaves out a row whose district is null.
\<close>

theorem map_points_counterexample:
  "dashboard [no_toilet_school] ''All'' ''All'' =
     Inr (\<lparr>province_options = [Some ''All'', Some ''Coast''],
           district_options = [Some ''All'', Some ''Kilifi'']\<rparr>,
          \<lparr>kpi1 = 80, kpi2 = 1, kpi3 = 1, ratio_chart = [(''Kilifi'', None)],
           shortage_chart = [(''Kilifi'', 1)], fig_shortage = [], fig_infra = []\<rparr>) \<and>
   Latitude no_toilet_school = Some (- 4) \<and> Longitude no_toilet_school = Some 39 \<and>
   dashboard [no_district_school] ''All'' ''All'' =
     Inr (\<lparr>province_options = [Some ''All'', Some ''Coast''],
           district_options = [Some ''All'', None]\<rparr>,
          \<lparr>kpi1 = 130, kpi2 = 1, kpi3 = 2, ratio_chart = [], shortage_chart = [],
           fig_shortage = [(no_district_school_derived, Some Low)],
           fig_infra = [(no_district_school_derived, Some 6)]\<rparr>) \<and>
   Latitude no_district_school = Some (- 3) \<and> Longitude no_district_school = Some 40"
proof -
  have a: "render [no_toilet_school_derived] =
     \<lparr>kpi1 = 80, kpi2 = 1, kpi3 = 1, ratio_chart = [(''Kilifi'', None)],
      shortage_chart = [(''Kilifi'', 1)], fig_shortage = [], fig_infra = []\<rparr>"
    by (simp add: render_def ratio_by_district_def shortage_by_district_def
      groupby_District_def group_keys_def map_data_def shortage_points_def
      infra_points_def map_row_notna_def pmean_def sample_defs)
  have b: "render [no_district_school_derived] =
     \<lparr>kpi1 = 130, kpi2 = 1, kpi3 = 2, ratio_chart = [], shortage_chart = [],
      fig_shortage = [(no_district_school_derived, Some Low)],
      fig_infra = [(no_district_school_derived, Some 6)]\<rparr>"
  proof -
    have pts: "map_data [no_district_school_derived] = [no_district_school_derived]"
      by (simp add: map_data_def map_row_notna_def sample_defs)
    have cells: "Teacher_Shortage no_district_school_derived = Some 2"
      "infra_color no_district_school_derived = Some 6"
      "TotalEnrol no_district_school_derived = Some 130"
      "Total_Teachers_Recalc no_district_school_derived = Some 1"
      "District no_district_school_derived = None"
      by (simp_all add: infra_color_def padd_def sample_defs)
    show ?thesis
      by (simp add: render_def ratio_by_district_def shortage_by_district_def
        groupby_District_def group_keys_def shortage_points_def infra_points_def
        Shortage_Level_def pts cells)
  qed
  have c: "Latitude no_toilet_school = Some (- 4)" "Longitude no_toilet_school = Some 39"
    "Latitude no_district_school = Some (- 3)" "Longitude no_district_school = Some 40"
    by (simp_all add: sample_defs)
  from dashboard_eval [OF no_toilet_school_preprocess no_toilet_school_sidebar, of "''All''"]
    dashboard_eval [OF no_district_school_preprocess no_district_school_sidebar, of "''All''"]
    c show ?thesis
    by (simp only: filtered_df_All a b)
qed

text \<open>
  Claim C2, amended. On a file of modest size, when the script runs to its views, for
  every row of the filtered table: the row is a point of the teacher shortage map, and
  likewise of the infrastructure map, if and only if its latitude, longitude, school
  name and toilet count are all non-null; on the maps or not, the row is counted in the
  three KPI totals (each total is the row's own value plus the total of the other
  rows); and when its district is non-null, its district has a row in both
  per-district tables.
\<close>

theorem map_points_iff_all_map_columns:
  assumes "dashboard raw province district = Inr (sb, v)"
    and "preprocess raw = Inr df"
    and "r \<in> set (filtered_df df province district)"
    and "modest raw"
  shows "(r \<in> set (map fst (fig_shortage v)) \<longleftrightarrow>
            Latitude r \<noteq> None \<and> Longitude r \<noteq> None \<and> Name_of_Sc r \<noteq> None \<and>
            TotalToile r \<noteq> None) \<and>
         (r \<in> set (map fst (fig_infra v)) \<longleftrightarrow>
            Latitude r \<noteq> None \<and> Longitude r \<noteq> None \<and> Name_of_Sc r \<noteq> None \<and>
            TotalToile r \<noteq> None) \<and>
         kpi1 v = null_as_zero (TotalEnrol r)
                  + psum (map TotalEnrol (remove1 r (filtered_df df province district))) \<and>
         kpi2 v = null_as_zero (Total_Teachers_Recalc r)
                  + psum (map Total_Teachers_Recalc
                       (remove1 r (filtered_df df province district))) \<and>
         kpi3 v = null_as_zero (Teacher_Shortage r)
                  + psum (map Teacher_Shortage (remove1 r (filtered_df df province district))) \<and>
         (\<forall>k. District r = Some k \<longrightarrow>
            k \<in> set (map fst (ratio_chart v)) \<and> k \<in> set (map fst (shortage_chart v)))"
proof -
  let ?fdf = "filtered_df df province district"
  from assms(1) obtain df' where "preprocess raw = Inr df'"
    and "v = render (filtered_df df' province district)"
    by (rule dashboard_Inr)
  with assms(2) have v: "v = render ?fdf" by simp
  from assms(3) have "r \<in> set df" using set_filtered_df by blast
  with assms(2) obtain r0 where r0: "derive r0 = Inr r" by (rule preprocess_member)
  have "Teacher_Shortage r \<noteq> None" using derived_shortage_nonneg [OF r0] by auto
  moreover have "Total_Teachers_Recalc r \<noteq> None" by (rule derived_total_notna [OF r0])
  ultimately have notna: "map_row_notna r \<longleftrightarrow>
      Latitude r \<noteq> None \<and> Longitude r \<noteq> None \<and> Name_of_Sc r \<noteq> None \<and> TotalToile r \<noteq> None"
    by (simp add: map_row_notna_def)
  have mem: "r \<in> set (map_data ?fdf) \<longleftrightarrow>
      Latitude r \<noteq> None \<and> Longitude r \<noteq> None \<and> Name_of_Sc r \<noteq> None \<and> TotalToile r \<noteq> None"
    using assms(3) notna by (simp add: map_data_def)
  have k1: "kpi1 v = null_as_zero (TotalEnrol r) + psum (map TotalEnrol (remove1 r ?fdf))"
    unfolding v using psum_remove1 [OF assms(3), of TotalEnrol] by (simp add: render_def)
  have k2: "kpi2 v = null_as_zero (Total_Teachers_Recalc r)
      + psum (map Total_Teachers_Recalc (remove1 r ?fdf))"
    unfolding v using psum_remove1 [OF assms(3), of Total_Teachers_Recalc]
    by (simp add: render_def)
  have k3: "kpi3 v = null_as_zero (Teacher_Shortage r)
      + psum (map Teacher_Shortage (remove1 r ?fdf))"
    unfolding v using psum_remove1 [OF assms(3), of Teacher_Shortage]
    by (simp add: render_def)
  have keys: "\<forall>k. District r = Some k \<longrightarrow>
      k \<in> set (map fst (ratio_chart v)) \<and> k \<in> set (map fst (shortage_chart v))"
  proof (intro allI impI)
    fix k assume "District r = Some k"
    with assms(3) have "k \<in> set (group_keys ?fdf)" unfolding set_group_keys by blast
    then show "k \<in> set (map fst (ratio_chart v)) \<and> k \<in> set (map fst (shortage_chart v))"
      unfolding v by (simp add: render_def table_keys)
  qed
  have pts: "set (map fst (fig_shortage v)) = set (map_data ?fdf)"
    "set (map fst (fig_infra v)) = set (map_data ?fdf)"
    unfolding v by (simp_all only: map_points)
  show ?thesis
    unfolding pts using mem k1 k2 k3 keys by blast
qed

text \<open>A file of two schools of one district, the second without a toilet count.\<close>

lemma two_schools_preprocess:
  "preprocess [surplus_school, no_toilet_school] =
     Inr [surplus_school_derived, no_toilet_school_derived]"
  by (simp add: preprocess_def validity_stage_def valid_enrol_def derive_def Let_def
      fill_teacher_columns_def sample_defs required_of_enrol cell_defs)

lemma two_schools_sidebar:
  "sidebar_options [surplus_school_derived, no_toilet_school_derived] ''Coast'' =
     Inr \<lparr>province_options = [Some ''All'', Some ''Coast''],
          district_options = [Some ''All'', Some ''Kilifi'']\<rparr>"
  by (simp add: sidebar_options_def py_sorted_def unique_def sample_defs)

lemma two_schools_filtered:
  "filtered_df [surplus_school_derived, no_toilet_school_derived] ''Coast'' ''Kilifi'' =
     [surplus_school_derived, no_toilet_school_derived]"
  by (simp add: filtered_df_def sample_defs)

lemma two_schools_modest: "modest [surplus_school, no_toilet_school]"
  by (simp add: modest_def int32_counts_def int32_count_def sample_defs)

theorem map_points_iff_all_map_columns_witness:
  "dashboard [surplus_school, no_toilet_school] ''Coast'' ''Kilifi'' =
     Inr (\<lparr>province_options = [Some ''All'', Some ''Coast''],
           district_options = [Some ''All'', Some ''Kilifi'']\<rparr>,
          render [surplus_school_derived, no_toilet_school_derived]) \<and>
   preprocess [surplus_school, no_toilet_school] =
     Inr [surplus_school_derived, no_toilet_school_derived] \<and>
   no_toilet_school_derived \<in> set (filtered_df
     [surplus_school_derived, no_toilet_school_derived] ''Coast'' ''Kilifi'') \<and>
   modest [surplus_school, no_toilet_school] \<and>
   no_toilet_school_derived \<notin> set (map fst (fig_shortage
     (render [surplus_school_derived, no_toilet_school_derived]))) \<and>
   kpi1 (render [surplus_school_derived, no_toilet_school_derived]) = 80 + 100 \<and>
   ''Kilifi'' \<in> set (map fst (shortage_chart
     (render [surplus_school_derived, no_toilet_school_derived])))"
proof -
  let ?df = "[surplus_school_derived, no_toilet_school_derived]"
  have d: "dashboard [surplus_school, no_toilet_school] ''Coast'' ''Kilifi'' =
     Inr (\<lparr>province_options = [Some ''All'', Some ''Coast''],
           district_options = [Some ''All'', Some ''Kilifi'']\<rparr>, render ?df)"
    using dashboard_eval [OF two_schools_preprocess two_schools_sidebar, of "''Kilifi''"]
    by (simp only: two_schools_filtered)
  have m: "no_toilet_school_derived \<in> set (filtered_df ?df ''Coast'' ''Kilifi'')"
    by (simp only: two_schools_filtered) simp
  have distinct: "surplus_school_derived \<noteq> no_toilet_school_derived"
    by (simp add: sample_defs)
  have cells: "TotalToile no_toilet_school_derived = None"
    "TotalEnrol no_toilet_school_derived = Some 80"
    "TotalEnrol surplus_school_derived = Some 100"
    "District no_toilet_school_derived = Some ''Kilifi''"
    by (simp_all add: sample_defs)
  from map_points_iff_all_map_columns [OF d two_schools_preprocess m two_schools_modest]
  have "no_toilet_school_derived \<notin> set (map fst (fig_shortage (render ?df))) \<and>
     kpi1 (render ?df) = 80 + 100 \<and>
     ''Kilifi'' \<in> set (map fst (shortage_chart (render ?df)))"
    unfolding two_schools_filtered using distinct
    by (simp add: cells null_as_zero_def)
  with d two_schools_preprocess m two_schools_modest show ?thesis by blast
qed

end
